theory Spec2Isabelle
  imports Main
begin

section \<open>Errors and small helpers\<close>

text \<open>
  The converter (\<^verbatim>\<open>DataflowToSqlQueryPlanConverter\<close> in
  \<^verbatim>\<open>metricflow/plan_conversion/dataflow_to_sql.py\<close>) aborts a compilation by a failed
  \<^verbatim>\<open>assert\<close>, by \<^verbatim>\<open>raise RuntimeError\<close>, or through an exception of a helper it calls.
  Every handler of the model returns \<open>error + result\<close>, with \<open>Inl\<close> the abort.
\<close>

datatype error =
    AssertionError string
  | RuntimeError string
  | ValueError string
  | IndexError

text \<open>Python's \<^verbatim>\<open>str\<close> on an integer: decimal digits, a leading minus sign when negative.\<close>

definition digit_char :: "nat \<Rightarrow> char" where
  "digit_char d = ''0123456789'' ! d"

fun str_of_nat :: "nat \<Rightarrow> string" where
  "str_of_nat n = (if n < 10 then [digit_char n] else str_of_nat (n div 10) @ [digit_char (n mod 10)])"

declare str_of_nat.simps [simp del]

definition str_of_int :: "int \<Rightarrow> string" where
  "str_of_int i = (if i < 0 then CHR ''-'' # str_of_nat (nat (- i)) else str_of_nat (nat i))"

section \<open>Data model\<close>

subsection \<open>Enumerations\<close>

datatype AggregationState = NON_AGGREGATED | PARTIAL | COMPLETE

text \<open>
  The order the specification puts on aggregation states:
  \<open>NON_AGGREGATED < PARTIAL < COMPLETE\<close>.
\<close>

fun state_rank :: "AggregationState \<Rightarrow> nat" where
  "state_rank NON_AGGREGATED = 0"
| "state_rank PARTIAL = 1"
| "state_rank COMPLETE = 2"

text \<open>
  \<^verbatim>\<open>TimeGranularity\<close> is an enumeration of the library \<^verbatim>\<open>dbt_semantic_interfaces\<close>; the
  converter only compares granularities for equality and through \<^verbatim>\<open>to_int()\<close>, which orders
  them from the finest to the coarsest. \<^verbatim>\<open>DAY\<close> is the finest granularity the converter
  supports (see the TODO in \<^verbatim>\<open>visit_join_to_time_spine_node\<close>).
\<close>

datatype TimeGranularity = DAY | WEEK | MONTH | QUARTER | YEAR

fun to_int :: "TimeGranularity \<Rightarrow> int" where
  "to_int DAY = 10"
| "to_int WEEK = 11"
| "to_int MONTH = 12"
| "to_int QUARTER = 13"
| "to_int YEAR = 14"

text \<open>\<^verbatim>\<open>DatePart\<close>, \<^verbatim>\<open>AggregationType\<close>: enumerations of the same library, kept by name.\<close>

type_synonym DatePart = string

datatype AggregationType =
    SUM | SUM_BOOLEAN | AVERAGE | MIN | MAX | COUNT | COUNT_DISTINCT | MEDIAN | PERCENTILE

datatype MetricType = SIMPLE | RATIO | CUMULATIVE | DERIVED | CONVERSION

datatype ConversionCalculationType = CONVERSION_RATE | CONVERSIONS

subsection \<open>Specs\<close>

text \<open>
  A spec identifies a semantic element: an element name, for linkable elements the ordered
  entity links, for time dimensions a granularity and an optional date part. The record
  extension follows the class hierarchy of the specs. An entity reference is kept by its
  element name.
\<close>

type_synonym EntityReference = string

record InstanceSpec =
  element_name :: string

record LinkableInstanceSpec = InstanceSpec +
  entity_links :: "EntityReference list"

record TimeDimensionSpec = LinkableInstanceSpec +
  time_granularity :: TimeGranularity
  date_part :: "DatePart option"
  spec_aggregation_state :: "AggregationState option"

record GroupByMetricSpec = LinkableInstanceSpec +
  metric_subquery_entity_links :: "EntityReference list"

record MetadataSpec = InstanceSpec +
  agg_type :: "AggregationType option"

type_synonym MeasureSpec = InstanceSpec
type_synonym MetricSpec = InstanceSpec
type_synonym DimensionSpec = LinkableInstanceSpec
type_synonym EntitySpec = LinkableInstanceSpec

text \<open>
  \<^verbatim>\<open>resolve_spec\<close> of the column-association resolver dispatches on the class of the
  spec; the tagged union makes the class explicit.
\<close>

datatype AnySpec =
    OfMeasureSpec MeasureSpec
  | OfDimensionSpec DimensionSpec
  | OfTimeDimensionSpec TimeDimensionSpec
  | OfEntitySpec EntitySpec
  | OfMetricSpec MetricSpec
  | OfGroupByMetricSpec GroupByMetricSpec
  | OfMetadataSpec MetadataSpec

record ColumnAssociation =
  column_name :: string

text \<open>
  The resolver is an external collaborator (\<^verbatim>\<open>ColumnAssociationResolver\<close>): every handler
  takes it as the parameter \<open>resolve_spec\<close>.
\<close>

type_synonym ColumnAssociationResolver = "AnySpec \<Rightarrow> ColumnAssociation"

subsection \<open>SQL expressions and select columns\<close>

record SqlColumnReference =
  table_alias :: string
  col_name :: string

datatype SqlFunction = COALESCE | FN_SUM | FN_AVERAGE | FN_MIN | FN_MAX | FN_COUNT_DISTINCT

datatype SqlComparison = EQUALS

datatype SqlLogicalOperator = OR_OP | AND_OP

datatype SqlExpressionNode =
    SqlColumnReferenceExpression SqlColumnReference
  | SqlStringExpression string
  | SqlStringLiteralExpression string
  | SqlBetweenExpression SqlExpressionNode SqlExpressionNode SqlExpressionNode
  | SqlAggregateFunctionExpression SqlFunction "SqlExpressionNode list"
  | SqlRatioComputationExpression SqlExpressionNode SqlExpressionNode
  | SqlDateTruncExpression TimeGranularity SqlExpressionNode
  | SqlExtractExpression DatePart SqlExpressionNode
  | SqlComparisonExpression SqlExpressionNode SqlComparison SqlExpressionNode
  | SqlLogicalExpression SqlLogicalOperator "SqlExpressionNode list"

record SqlSelectColumn =
  expr :: SqlExpressionNode
  column_alias :: string

subsection \<open>Instances and instance sets\<close>

text \<open>
  An instance binds one spec to its column associations and to its provenance
  (\<^verbatim>\<open>defined_from\<close>). The source builds every instance with a one-element tuple of
  associated columns, but the field is a tuple, so the model keeps a list. Measure
  instances carry their aggregation state. The provenance of an element of a semantic model
  is a list of references (semantic model name, element name); that of a metric is the
  metric's name.
\<close>

type_synonym SemanticModelElementReference = "string \<times> string"

record ('spec, 'prov) MdoInstance =
  associated_columns :: "ColumnAssociation list"
  spec :: 'spec
  defined_from :: 'prov

record ('spec, 'prov) MeasureInstanceR = "('spec, 'prov) MdoInstance" +
  aggregation_state :: AggregationState

type_synonym MeasureInstance = "(MeasureSpec, SemanticModelElementReference list) MeasureInstanceR"
type_synonym DimensionInstance = "(DimensionSpec, SemanticModelElementReference list) MdoInstance"
type_synonym TimeDimensionInstance = "(TimeDimensionSpec, SemanticModelElementReference list) MdoInstance"
type_synonym EntityInstance = "(EntitySpec, SemanticModelElementReference list) MdoInstance"
type_synonym MetricInstance = "(MetricSpec, string) MdoInstance"
type_synonym MetadataInstance = "(MetadataSpec, unit) MdoInstance"

text \<open>
  The instance set with the tuples the source reads and writes
  (\<^verbatim>\<open>measure_instances\<close>, \<^verbatim>\<open>dimension_instances\<close>, \<^verbatim>\<open>time_dimension_instances\<close>,
  \<^verbatim>\<open>entity_instances\<close>, \<^verbatim>\<open>metric_instances\<close>, \<^verbatim>\<open>metadata_instances\<close>). A tuple the
  constructor call does not name is empty, as in
  \<^verbatim>\<open>InstanceSet(time_dimension_instances=(agg_time_dimension_instance,))\<close>.
\<close>

record InstanceSet =
  measure_instances :: "MeasureInstance list"
  dimension_instances :: "DimensionInstance list"
  time_dimension_instances :: "TimeDimensionInstance list"
  entity_instances :: "EntityInstance list"
  metric_instances :: "MetricInstance list"
  metadata_instances :: "MetadataInstance list"

definition empty_InstanceSet :: InstanceSet where
  "empty_InstanceSet =
     \<lparr>measure_instances = [], dimension_instances = [], time_dimension_instances = [],
      entity_instances = [], metric_instances = [], metadata_instances = []\<rparr>"

subsection \<open>SQL plan nodes and data sets\<close>

datatype SqlJoinType = LEFT_OUTER | FULL_OUTER | INNER | CROSS_JOIN

record SqlOrderByDescription =
  order_expr :: SqlExpressionNode
  desc :: bool

text \<open>
  A SQL node is a table reference, a SELECT statement or a CREATE TABLE AS over a node. The
  arguments of \<open>SqlSelectStatementNode\<close> are the keyword arguments of the source's
  constructor, in this order: description, select columns, FROM source, FROM alias, join
  descriptions, WHERE, GROUP BY, ORDER BY, LIMIT, DISTINCT. An argument the source leaves out
  takes its default: no joins, no WHERE, no GROUP BY, no ORDER BY, no LIMIT, not DISTINCT.
\<close>

datatype SqlQueryPlanNode =
    SqlTableFromClauseNode (sql_table: string)
  | SqlSelectStatementNode
      (description: string)
      (select_columns: "SqlSelectColumn list")
      (from_source: SqlQueryPlanNode)
      (from_source_alias: string)
      (joins_descs: "SqlJoinDescription list")
      (where_expr: "SqlExpressionNode option")
      (group_bys: "SqlSelectColumn list")
      (order_bys: "SqlOrderByDescription list")
      (limit_rows: "nat option")
      (distinct_rows: bool)
  | SqlCreateTableAsNode (output_sql_table: string) (ctas_parent_node: SqlQueryPlanNode)
and SqlJoinDescription =
    SqlJoinDescription
      (right_source: SqlQueryPlanNode)
      (right_source_alias: string)
      (on_condition: "SqlExpressionNode option")
      (join_type: SqlJoinType)

text \<open>
  Modelled from the spec: \<^verbatim>\<open>SqlDataSet\<close> (\<^verbatim>\<open>metricflow.dataset.sql_dataset\<close>, not under
  src/), "the pair (instance_set, sql_node)", and its accessor
  \<^verbatim>\<open>checked_sql_select_node\<close>, which hands out the node when it is a SELECT statement and
  raises otherwise.
\<close>

record SqlDataSet =
  instance_set :: InstanceSet
  sql_node :: SqlQueryPlanNode

definition checked_sql_select_node :: "SqlDataSet \<Rightarrow> error + SqlQueryPlanNode" where
  "checked_sql_select_node ds =
     (case sql_node ds of
        SqlSelectStatementNode d cs f a js w g ob l dt \<Rightarrow> Inr (sql_node ds)
      | _ \<Rightarrow> Inl (RuntimeError ''the data set has no SELECT statement node''))"

text \<open>
  \<^verbatim>\<open>_next_unique_table_alias\<close> draws from the process-wide sequential id generator. The
  model threads the counter: the alias is the sub-query prefix followed by the counter's
  value (the source's comments show aliases such as \<^verbatim>\<open>subq_9\<close>), and the counter advances.
\<close>

definition next_unique_table_alias :: "nat \<Rightarrow> string \<times> nat" where
  "next_unique_table_alias st = (''subq_'' @ str_of_nat st, Suc st)"

section \<open>Instance-set transforms\<close>

text \<open>Sequencing of steps that may abort: the first abort is the result.\<close>

definition bind_error :: "error + 'a \<Rightarrow> ('a \<Rightarrow> error + 'b) \<Rightarrow> error + 'b" where
  "bind_error m f = (case m of Inl e \<Rightarrow> Inl e | Inr x \<Rightarrow> f x)"

text \<open>
  Modelled from the spec: \<^verbatim>\<open>InstanceSpecSet\<close> and the projection \<^verbatim>\<open>InstanceSet.spec_set\<close>
  (\<^verbatim>\<open>metricflow_semantics\<close>, not under src/): "projection to a spec set", the specs of the
  instances, tuple by tuple.
\<close>

record InstanceSpecSet =
  measure_specs :: "MeasureSpec list"
  dimension_specs :: "DimensionSpec list"
  time_dimension_specs :: "TimeDimensionSpec list"
  entity_specs :: "EntitySpec list"
  metric_specs :: "MetricSpec list"
  metadata_specs :: "MetadataSpec list"

definition spec_set :: "InstanceSet \<Rightarrow> InstanceSpecSet" where
  "spec_set s =
     \<lparr>measure_specs = map spec (measure_instances s),
      dimension_specs = map spec (dimension_instances s),
      time_dimension_specs = map spec (time_dimension_instances s),
      entity_specs = map spec (entity_instances s),
      metric_specs = map spec (metric_instances s),
      metadata_specs = map spec (metadata_instances s)\<rparr>"

text \<open>
  Modelled from the spec: the transform \<^verbatim>\<open>FilterElements\<close>
  (\<^verbatim>\<open>metricflow.plan_conversion.instance_converters\<close>, not under src/): "keep only instances
  matching an include-spec-set, or drop those matching an exclude-spec-set".
\<close>

definition FilterElements_include :: "InstanceSpecSet \<Rightarrow> InstanceSet \<Rightarrow> InstanceSet" where
  "FilterElements_include include_specs s =
     \<lparr>measure_instances = filter (\<lambda>x. spec x \<in> set (measure_specs include_specs)) (measure_instances s),
      dimension_instances = filter (\<lambda>x. spec x \<in> set (dimension_specs include_specs)) (dimension_instances s),
      time_dimension_instances =
        filter (\<lambda>x. spec x \<in> set (time_dimension_specs include_specs)) (time_dimension_instances s),
      entity_instances = filter (\<lambda>x. spec x \<in> set (entity_specs include_specs)) (entity_instances s),
      metric_instances = filter (\<lambda>x. spec x \<in> set (metric_specs include_specs)) (metric_instances s),
      metadata_instances = filter (\<lambda>x. spec x \<in> set (metadata_specs include_specs)) (metadata_instances s)\<rparr>"

definition FilterElements_exclude :: "InstanceSpecSet \<Rightarrow> InstanceSet \<Rightarrow> InstanceSet" where
  "FilterElements_exclude exclude_specs s =
     \<lparr>measure_instances = filter (\<lambda>x. spec x \<notin> set (measure_specs exclude_specs)) (measure_instances s),
      dimension_instances = filter (\<lambda>x. spec x \<notin> set (dimension_specs exclude_specs)) (dimension_instances s),
      time_dimension_instances =
        filter (\<lambda>x. spec x \<notin> set (time_dimension_specs exclude_specs)) (time_dimension_instances s),
      entity_instances = filter (\<lambda>x. spec x \<notin> set (entity_specs exclude_specs)) (entity_instances s),
      metric_instances = filter (\<lambda>x. spec x \<notin> set (metric_specs exclude_specs)) (metric_instances s),
      metadata_instances = filter (\<lambda>x. spec x \<notin> set (metadata_specs exclude_specs)) (metadata_instances s)\<rparr>"

text \<open>
  Modelled from the spec: the transform \<^verbatim>\<open>ChangeMeasureAggregationState\<close>
  (\<^verbatim>\<open>instance_converters\<close>, not under src/): "remap each measure's state through a
  dictionary; unknown states are an error". The dictionary is the association list of the
  Python literal; the other tuples of the instance set are kept.
\<close>

fun change_measure_states ::
  "(AggregationState \<times> AggregationState) list \<Rightarrow> MeasureInstance list \<Rightarrow> error + MeasureInstance list" where
  "change_measure_states d [] = Inr []"
| "change_measure_states d (m # ms) =
     (case map_of d (aggregation_state m) of
        None \<Rightarrow> Inl (ValueError ''aggregation state not in the state changes'')
      | Some s' \<Rightarrow>
          bind_error (change_measure_states d ms)
            (\<lambda>ms'. Inr (m\<lparr>aggregation_state := s'\<rparr> # ms')))"

definition ChangeMeasureAggregationState ::
  "(AggregationState \<times> AggregationState) list \<Rightarrow> InstanceSet \<Rightarrow> error + InstanceSet" where
  "ChangeMeasureAggregationState aggregation_state_changes s =
     bind_error (change_measure_states aggregation_state_changes (measure_instances s))
       (\<lambda>ms. Inr (s\<lparr>measure_instances := ms\<rparr>))"

text \<open>
  Modelled from the spec: the transform \<^verbatim>\<open>ChangeAssociatedColumns\<close> (\<^verbatim>\<open>instance_converters\<close>,
  not under src/): "re-resolve every instance's column names through the resolver".
\<close>

definition ChangeAssociatedColumns :: "ColumnAssociationResolver \<Rightarrow> InstanceSet \<Rightarrow> InstanceSet" where
  "ChangeAssociatedColumns resolve_spec s =
     \<lparr>measure_instances =
        map (\<lambda>x. x\<lparr>associated_columns := [resolve_spec (OfMeasureSpec (spec x))]\<rparr>) (measure_instances s),
      dimension_instances =
        map (\<lambda>x. x\<lparr>associated_columns := [resolve_spec (OfDimensionSpec (spec x))]\<rparr>) (dimension_instances s),
      time_dimension_instances =
        map (\<lambda>x. x\<lparr>associated_columns := [resolve_spec (OfTimeDimensionSpec (spec x))]\<rparr>)
          (time_dimension_instances s),
      entity_instances =
        map (\<lambda>x. x\<lparr>associated_columns := [resolve_spec (OfEntitySpec (spec x))]\<rparr>) (entity_instances s),
      metric_instances =
        map (\<lambda>x. x\<lparr>associated_columns := [resolve_spec (OfMetricSpec (spec x))]\<rparr>) (metric_instances s),
      metadata_instances =
        map (\<lambda>x. x\<lparr>associated_columns := [resolve_spec (OfMetadataSpec (spec x))]\<rparr>) (metadata_instances s)\<rparr>"

text \<open>
  Modelled from the spec: the transform \<^verbatim>\<open>FilterLinkableInstancesWithLeadingLink\<close>
  (\<^verbatim>\<open>instance_converters\<close>, not under src/): "drop linkable instances whose first entity link
  equals the given entity". The linkable instances are the dimension, time-dimension and
  entity instances.
\<close>

definition has_leading_link :: "EntityReference \<Rightarrow> EntityReference list \<Rightarrow> bool" where
  "has_leading_link entity_link links = (case links of [] \<Rightarrow> False | l # ls \<Rightarrow> l = entity_link)"

definition FilterLinkableInstancesWithLeadingLink :: "EntityReference \<Rightarrow> InstanceSet \<Rightarrow> InstanceSet" where
  "FilterLinkableInstancesWithLeadingLink entity_link s =
     s\<lparr>dimension_instances :=
         filter (\<lambda>x. \<not> has_leading_link entity_link (entity_links (spec x))) (dimension_instances s),
       time_dimension_instances :=
         filter (\<lambda>x. \<not> has_leading_link entity_link (entity_links (spec x))) (time_dimension_instances s),
       entity_instances :=
         filter (\<lambda>x. \<not> has_leading_link entity_link (entity_links (spec x))) (entity_instances s)\<rparr>"

text \<open>
  Modelled from the spec: the transform \<^verbatim>\<open>AddLinkToLinkableElements\<close> (\<^verbatim>\<open>instance_converters\<close>,
  not under src/): "prepend the entity link to every linkable instance's entity-link
  chain".
\<close>

definition add_link :: "EntityReference \<Rightarrow> ('s LinkableInstanceSpec_scheme, 'p, 'z) MdoInstance_scheme
    \<Rightarrow> ('s LinkableInstanceSpec_scheme, 'p, 'z) MdoInstance_scheme" where
  "add_link join_on_entity x = x\<lparr>spec := (spec x)\<lparr>entity_links := join_on_entity # entity_links (spec x)\<rparr>\<rparr>"

definition AddLinkToLinkableElements :: "EntityReference \<Rightarrow> InstanceSet \<Rightarrow> InstanceSet" where
  "AddLinkToLinkableElements join_on_entity s =
     s\<lparr>dimension_instances := map (add_link join_on_entity) (dimension_instances s),
       time_dimension_instances := map (add_link join_on_entity) (time_dimension_instances s),
       entity_instances := map (add_link join_on_entity) (entity_instances s)\<rparr>"

text \<open>
  Modelled from the spec: \<^verbatim>\<open>InstanceSet.merge\<close> (\<^verbatim>\<open>metricflow_semantics.instances\<close>, not
  under src/): the instances of the given sets, tuple by tuple and in order; an instance
  whose spec is already present is left out ("the common linkable instances will be
  de-duped", \<^verbatim>\<open>visit_combine_aggregated_outputs_node\<close>).
\<close>

fun merge_instances ::
  "('s, 'p, 'z) MdoInstance_scheme list \<Rightarrow> ('s, 'p, 'z) MdoInstance_scheme list
     \<Rightarrow> ('s, 'p, 'z) MdoInstance_scheme list" where
  "merge_instances acc [] = acc"
| "merge_instances acc (x # xs) =
     merge_instances (if spec x \<in> set (map spec acc) then acc else acc @ [x]) xs"

definition InstanceSet_merge :: "InstanceSet list \<Rightarrow> InstanceSet" where
  "InstanceSet_merge instance_sets =
     \<lparr>measure_instances = merge_instances [] (concat (map measure_instances instance_sets)),
      dimension_instances = merge_instances [] (concat (map dimension_instances instance_sets)),
      time_dimension_instances = merge_instances [] (concat (map time_dimension_instances instance_sets)),
      entity_instances = merge_instances [] (concat (map entity_instances instance_sets)),
      metric_instances = merge_instances [] (concat (map metric_instances instance_sets)),
      metadata_instances = merge_instances [] (concat (map metadata_instances instance_sets))\<rparr>"

text \<open>
  Assignment to a key of an \<^verbatim>\<open>OrderedDict\<close>: an existing key keeps its position and takes
  the new value, a new key goes to the end.
\<close>

fun odict_set :: "('k \<times> 'v) list \<Rightarrow> 'k \<Rightarrow> 'v \<Rightarrow> ('k \<times> 'v) list" where
  "odict_set [] k v = [(k, v)]"
| "odict_set ((k', v') # kvs) k v =
     (if k' = k then (k, v) # kvs else (k', v') # odict_set kvs k v)"

section \<open>Join-on-entities\<close>

text \<open>
  The dataflow nodes keep the fields the handlers read. The type of a parent node is a
  parameter: a handler compiles a parent through the visitor call \<^verbatim>\<open>accept\<close>, which the
  model takes as a parameter, with the id counter threaded through it.
\<close>

record DataflowPlanNode =
  node_description :: string

record 'node JoinDescription =
  join_node :: 'node
  join_on_entity :: "EntityReference option"

record 'node JoinOnEntitiesNode = DataflowPlanNode +
  left_node :: 'node
  join_targets :: "'node JoinDescription list"

type_synonym 'node visitor = "'node \<Rightarrow> nat \<Rightarrow> error + (SqlDataSet \<times> nat)"

text \<open>
  Lines 386 to 406 of \<^verbatim>\<open>visit_join_on_entities_node\<close>: the instance set the right data set
  contributes. With a join entity, the instances led by that entity are removed and the
  entity is then prepended as a link; without one, the set is taken as it is.
\<close>

definition right_data_set_instance_set_after_join ::
  "EntityReference option \<Rightarrow> InstanceSet \<Rightarrow> InstanceSet" where
  "right_data_set_instance_set_after_join join_entity right_instance_set =
     (case join_entity of
        Some e \<Rightarrow>
          (let right_data_set_instance_set_filtered =
                 FilterLinkableInstancesWithLeadingLink e right_instance_set
           in AddLinkToLinkableElements e right_data_set_instance_set_filtered)
      | None \<Rightarrow> right_instance_set)"

text \<open>
  The loop over \<^verbatim>\<open>node.join_targets\<close>. The join builder
  (\<^verbatim>\<open>SqlQueryPlanJoinBuilder.make_base_output_join_description\<close>, external to this file) is
  the parameter \<open>make_join\<close>: it gets the annotated left and right data sets and the join
  description and aborts or returns the SQL join description.
\<close>

fun join_targets_loop ::
  "'node visitor
   \<Rightarrow> (SqlDataSet \<times> string \<Rightarrow> SqlDataSet \<times> string \<Rightarrow> 'node JoinDescription \<Rightarrow> error + SqlJoinDescription)
   \<Rightarrow> SqlDataSet \<times> string
   \<Rightarrow> 'node JoinDescription list
   \<Rightarrow> SqlJoinDescription list \<times> (string \<times> InstanceSet) list \<times> nat
   \<Rightarrow> error + (SqlJoinDescription list \<times> (string \<times> InstanceSet) list \<times> nat)" where
  "join_targets_loop accept make_join from_annotated [] acc = Inr acc"
| "join_targets_loop accept make_join from_annotated (join_description # rest)
       (sql_join_descs, table_alias_to_instance_set, st) =
     bind_error (accept (join_node join_description) st) (\<lambda>(right_data_set, st1).
       (let (right_data_set_alias, st2) = next_unique_table_alias st1
        in bind_error (make_join from_annotated (right_data_set, right_data_set_alias) join_description)
             (\<lambda>sql_join_desc.
                join_targets_loop accept make_join from_annotated rest
                  (sql_join_descs @ [sql_join_desc],
                   odict_set table_alias_to_instance_set right_data_set_alias
                     (right_data_set_instance_set_after_join (join_on_entity join_description)
                        (instance_set right_data_set)),
                   st2))))"

text \<open>The state changes the handler applies to the measures of the left data set.\<close>

definition join_state_changes :: "(AggregationState \<times> AggregationState) list" where
  "join_state_changes =
     [(NON_AGGREGATED, NON_AGGREGATED), (COMPLETE, PARTIAL), (PARTIAL, PARTIAL)]"

text \<open>
  \<^verbatim>\<open>visit_join_on_entities_node\<close>. The select columns come from
  \<^verbatim>\<open>create_select_columns_for_instance_sets\<close> (\<^verbatim>\<open>instance_converters\<close>), the parameter
  \<open>create_select_columns\<close>, with the resolver inside it.
\<close>

definition visit_join_on_entities_node ::
  "'node visitor
   \<Rightarrow> (SqlDataSet \<times> string \<Rightarrow> SqlDataSet \<times> string \<Rightarrow> 'node JoinDescription \<Rightarrow> error + SqlJoinDescription)
   \<Rightarrow> ((string \<times> InstanceSet) list \<Rightarrow> error + SqlSelectColumn list)
   \<Rightarrow> 'node JoinOnEntitiesNode \<Rightarrow> nat \<Rightarrow> error + (SqlDataSet \<times> nat)" where
  "visit_join_on_entities_node accept make_join create_select_columns node st =
     bind_error (accept (left_node node) st) (\<lambda>(from_data_set, st1).
       (let (from_data_set_alias, st2) = next_unique_table_alias st1;
            table0 = odict_set [] from_data_set_alias (instance_set from_data_set)
        in bind_error (join_targets_loop accept make_join (from_data_set, from_data_set_alias)
                         (join_targets node) ([], table0, st2))
             (\<lambda>(sql_join_descs, table1, st3).
                bind_error (ChangeMeasureAggregationState join_state_changes
                              (FilterElements_include (spec_set (instance_set from_data_set))
                                 (instance_set from_data_set)))
                  (\<lambda>from_data_set_output_instance_set.
                     (let table_alias_to_instance_set =
                            odict_set table1 from_data_set_alias from_data_set_output_instance_set
                      in bind_error (create_select_columns table_alias_to_instance_set)
                           (\<lambda>select_cols.
                              bind_error (checked_sql_select_node from_data_set)
                                (\<lambda>from_select.
                                   Inr (\<lparr>instance_set =
                                            InstanceSet_merge (map snd table_alias_to_instance_set),
                                          sql_node = SqlSelectStatementNode (node_description node)
                                            select_cols from_select from_data_set_alias sql_join_descs
                                            None [] [] None False\<rparr>,
                                        st3))))))))"

section \<open>The entry point \<^verbatim>\<open>convert_to_sql_query_plan\<close>\<close>

text \<open>
  An engine kind is a member of the enumeration \<^verbatim>\<open>SqlEngine\<close>, kept by its member name;
  the source names one member, \<^verbatim>\<open>SqlEngine.BIGQUERY\<close>.
\<close>

type_synonym SqlEngine = string

definition BIGQUERY :: SqlEngine where
  "BIGQUERY = ''BIGQUERY''"

definition use_column_alias_in_group_by :: "SqlEngine \<Rightarrow> bool" where
  "use_column_alias_in_group_by sql_engine_type \<longleftrightarrow> sql_engine_type = BIGQUERY"

text \<open>
  An optimizer of the external pipeline: its class name and its pass
  \<^verbatim>\<open>optimize : sql_node \<rightarrow> sql_node\<close>. The list of optimizers for a level and the flag is the
  parameter \<open>optimizers_for_level\<close>
  (\<^verbatim>\<open>SqlQueryOptimizerConfiguration.optimizers_for_level\<close>).
\<close>

record SqlQueryPlanOptimizer =
  optimizer_name :: string
  optimize :: "SqlQueryPlanNode \<Rightarrow> SqlQueryPlanNode"

datatype LogRecord =
    ApplyingOptimizer string
  | AfterApplying string SqlQueryPlanNode

record 'id SqlQueryPlan =
  render_node :: SqlQueryPlanNode
  plan_id :: "'id option"

record 'id ConvertToSqlPlanResult =
  result_instance_set :: InstanceSet
  sql_plan :: "'id SqlQueryPlan"

text \<open>The loop over the optimizers: each pass rewrites the node and logs two records.\<close>

fun apply_optimizers ::
  "SqlQueryPlanOptimizer list \<Rightarrow> SqlQueryPlanNode \<Rightarrow> LogRecord list
     \<Rightarrow> SqlQueryPlanNode \<times> LogRecord list" where
  "apply_optimizers [] n lg = (n, lg)"
| "apply_optimizers (optimizer # rest) n lg =
     (let n' = optimize optimizer n
      in apply_optimizers rest n'
           (lg @ [ApplyingOptimizer (optimizer_name optimizer),
                  AfterApplying (optimizer_name optimizer) n']))"

text \<open>
  \<^verbatim>\<open>convert_to_sql_query_plan\<close>. The visitor call \<^verbatim>\<open>dataflow_plan_node.accept(self)\<close> is the
  parameter \<open>accept\<close>: it takes the node and the id counter and aborts or returns the data
  set and the advanced counter. The result holds what the caller can observe: the returned
  value, the log records and the counter.
\<close>

definition convert_to_sql_query_plan ::
  "('node \<Rightarrow> nat \<Rightarrow> error + (SqlDataSet \<times> nat))
   \<Rightarrow> ('level \<Rightarrow> bool \<Rightarrow> SqlQueryPlanOptimizer list)
   \<Rightarrow> SqlEngine \<Rightarrow> 'node \<Rightarrow> 'level \<Rightarrow> 'id option \<Rightarrow> nat
   \<Rightarrow> error + ('id ConvertToSqlPlanResult \<times> LogRecord list \<times> nat)" where
  "convert_to_sql_query_plan accept optimizers_for_level sql_engine_type dataflow_plan_node
       optimization_level sql_query_plan_id st =
     (case accept dataflow_plan_node st of
        Inl e \<Rightarrow> Inl e
      | Inr (data_set, st') \<Rightarrow>
          (let (n, lg) = apply_optimizers
                 (optimizers_for_level optimization_level
                    (use_column_alias_in_group_by sql_engine_type))
                 (sql_node data_set) []
           in Inr (\<lparr>result_instance_set = instance_set data_set,
                     sql_plan = \<lparr>render_node = n, plan_id = sql_query_plan_id\<rparr>\<rparr>, lg, st')))"

section \<open>Compute-metrics: the expression of one metric\<close>

text \<open>
  The metric protocol of \<^verbatim>\<open>dbt_semantic_interfaces\<close>, with the fields
  \<^verbatim>\<open>visit_compute_metrics_node\<close> reads. A reference is kept by its element name.
\<close>

record MetricInputMeasure =
  post_aggregation_measure_reference :: string
  fill_nulls_with :: "int option"

record MetricInput =
  post_aggregation_reference :: string

record ConversionTypeParams =
  base_measure :: MetricInputMeasure
  conversion_measure :: MetricInputMeasure
  calculation :: ConversionCalculationType

record MetricTypeParams =
  numerator :: "MetricInput option"
  denominator :: "MetricInput option"
  type_params_expr :: "string option"
  conversion_type_params :: "ConversionTypeParams option"

record Metric =
  name :: string
  metric_type :: MetricType
  type_params :: MetricTypeParams
  input_measures :: "MetricInputMeasure list"

text \<open>
  \<^verbatim>\<open>__make_col_reference_or_coalesce_expr\<close>: a column reference, wrapped in
  \<^verbatim>\<open>COALESCE(col, fill)\<close> when an input measure is given and its
  \<^verbatim>\<open>fill_nulls_with\<close> is not \<^verbatim>\<open>None\<close>.
\<close>

definition make_col_reference_or_coalesce_expr ::
  "string \<Rightarrow> MetricInputMeasure option \<Rightarrow> string \<Rightarrow> SqlExpressionNode" where
  "make_col_reference_or_coalesce_expr column input_measure from_data_set_alias =
     (let metric_expr = SqlColumnReferenceExpression
            \<lparr>table_alias = from_data_set_alias, col_name = column\<rparr>
      in case input_measure of
           None \<Rightarrow> metric_expr
         | Some m \<Rightarrow>
             (case fill_nulls_with m of
                None \<Rightarrow> metric_expr
              | Some v \<Rightarrow> SqlAggregateFunctionExpression COALESCE
                            [metric_expr, SqlStringExpression (str_of_int v)]))"

text \<open>
  The body of the loop over \<^verbatim>\<open>node.metric_specs\<close> in \<^verbatim>\<open>visit_compute_metrics_node\<close>, up
  to \<^verbatim>\<open>assert metric_expr\<close>: the dispatch on the metric type. \<^verbatim>\<open>metric.measure_references\<close>
  is the list of the references of \<^verbatim>\<open>metric.input_measures\<close>, so both have the same
  length. A derived metric's \<^verbatim>\<open>expr\<close> is tested for truth, which an empty string fails.
\<close>

definition metric_expr_of ::
  "ColumnAssociationResolver \<Rightarrow> string \<Rightarrow> Metric \<Rightarrow> error + SqlExpressionNode" where
  "metric_expr_of resolve_spec from_data_set_alias metric =
     (let col = (\<lambda>c. SqlColumnReferenceExpression \<lparr>table_alias = from_data_set_alias, col_name = c\<rparr>);
          measure_col = (\<lambda>m. column_name (resolve_spec (OfMeasureSpec
                               \<lparr>element_name = post_aggregation_measure_reference m\<rparr>)));
          metric_col = (\<lambda>m. column_name (resolve_spec (OfMetricSpec
                               \<lparr>element_name = post_aggregation_reference m\<rparr>)))
      in case metric_type metric of
           RATIO \<Rightarrow>
             (case (numerator (type_params metric), denominator (type_params metric)) of
                (Some n, Some d) \<Rightarrow>
                  Inr (SqlRatioComputationExpression (col (metric_col n)) (col (metric_col d)))
              | _ \<Rightarrow> Inl (AssertionError ''Missing numerator or denominator for ratio metric''))
         | SIMPLE \<Rightarrow>
             (if length (input_measures metric) > 0 then
                (if length (input_measures metric) = 1 then
                   (let input_measure = hd (input_measures metric)
                    in Inr (make_col_reference_or_coalesce_expr (measure_col input_measure)
                              (Some input_measure) from_data_set_alias))
                 else Inl (AssertionError ''Simple metrics should always source from exactly 1 measure.''))
              else Inr (make_col_reference_or_coalesce_expr (name metric) None from_data_set_alias))
         | CUMULATIVE \<Rightarrow>
             (if length (input_measures metric) = 1 then
                (let input_measure = hd (input_measures metric)
                 in Inr (make_col_reference_or_coalesce_expr (measure_col input_measure)
                           (Some input_measure) from_data_set_alias))
              else Inl (AssertionError ''Cumulative metrics should always source from exactly 1 measure.''))
         | DERIVED \<Rightarrow>
             (case type_params_expr (type_params metric) of
                Some e \<Rightarrow>
                  (if e \<noteq> [] then Inr (SqlStringExpression e)
                   else Inl (AssertionError ''Derived metrics are required to have an expr''))
              | None \<Rightarrow> Inl (AssertionError ''Derived metrics are required to have an expr''))
         | CONVERSION \<Rightarrow>
             (case conversion_type_params (type_params metric) of
                None \<Rightarrow> Inl (AssertionError ''A conversion metric should have conversion_type_params'')
              | Some p \<Rightarrow>
                  (let conversion_column_reference = col (measure_col (conversion_measure p));
                       base_column_reference = col (measure_col (base_measure p))
                   in case calculation p of
                        CONVERSION_RATE \<Rightarrow>
                          Inr (SqlRatioComputationExpression conversion_column_reference base_column_reference)
                      | CONVERSIONS \<Rightarrow> Inr conversion_column_reference)))"

section \<open>Properties\<close>

subsection \<open>Compute-metrics\<close>

lemma make_col_reference_no_measure:
  "make_col_reference_or_coalesce_expr c None a =
     SqlColumnReferenceExpression \<lparr>table_alias = a, col_name = c\<rparr>"
  by (simp add: make_col_reference_or_coalesce_expr_def)

lemma make_col_reference_is_coalesce:
  "(\<exists>args. make_col_reference_or_coalesce_expr c im a = SqlAggregateFunctionExpression COALESCE args)
     \<longleftrightarrow> (\<exists>m v. im = Some m \<and> fill_nulls_with m = Some v)"
  by (auto simp: make_col_reference_or_coalesce_expr_def Let_def split: option.splits)

text \<open>
  C10. For a simple metric with zero input measures the expression of the emitted select
  column is the plain column reference \<open>alias.name\<close>, the column name being the metric's own
  name, with no \<open>COALESCE\<close>. For a simple metric the expression is a \<open>COALESCE(x, fill)\<close>
  exactly when the metric has exactly one input measure and that measure's
  \<open>fill_nulls_with\<close> is set; the wrapped \<open>x\<close> is then the column reference of that measure
  and \<open>fill\<close> the decimal text of the fill value.
\<close>

theorem simple_metric_expr_coalesce:
  "(metric_type metric = SIMPLE \<and> input_measures metric = [] \<longrightarrow>
      metric_expr_of resolve_spec a metric =
        Inr (SqlColumnReferenceExpression \<lparr>table_alias = a, col_name = name metric\<rparr>))
   \<and> (metric_type metric = SIMPLE \<longrightarrow>
        ((\<exists>args. metric_expr_of resolve_spec a metric = Inr (SqlAggregateFunctionExpression COALESCE args))
           \<longleftrightarrow> (\<exists>m v. input_measures metric = [m] \<and> fill_nulls_with m = Some v)))
   \<and> (\<forall>m v. metric_type metric = SIMPLE \<and> input_measures metric = [m] \<and> fill_nulls_with m = Some v \<longrightarrow>
        metric_expr_of resolve_spec a metric =
          Inr (SqlAggregateFunctionExpression COALESCE
                 [SqlColumnReferenceExpression
                    \<lparr>table_alias = a,
                     col_name = column_name (resolve_spec (OfMeasureSpec
                        \<lparr>element_name = post_aggregation_measure_reference m\<rparr>))\<rparr>,
                  SqlStringExpression (str_of_int v)]))"
proof (intro conjI impI allI)
  assume "metric_type metric = SIMPLE \<and> input_measures metric = []"
  then show "metric_expr_of resolve_spec a metric =
        Inr (SqlColumnReferenceExpression \<lparr>table_alias = a, col_name = name metric\<rparr>)"
    by (simp add: metric_expr_of_def make_col_reference_no_measure)
next
  assume s: "metric_type metric = SIMPLE"
  show "(\<exists>args. metric_expr_of resolve_spec a metric = Inr (SqlAggregateFunctionExpression COALESCE args))
           \<longleftrightarrow> (\<exists>m v. input_measures metric = [m] \<and> fill_nulls_with m = Some v)"
  proof (cases "input_measures metric")
    case Nil
    with s show ?thesis
      by (simp add: metric_expr_of_def make_col_reference_no_measure)
  next
    case (Cons m ms)
    show ?thesis
    proof (cases ms)
      case Nil
      with Cons s show ?thesis
        using make_col_reference_is_coalesce
          [of "column_name (resolve_spec (OfMeasureSpec \<lparr>element_name = post_aggregation_measure_reference m\<rparr>))"
              "Some m" a]
        by (simp add: metric_expr_of_def)
    next
      case (Cons m' ms')
      with \<open>input_measures metric = m # ms\<close> s show ?thesis
        by (simp add: metric_expr_of_def)
    qed
  qed
next
  fix m v
  assume "metric_type metric = SIMPLE \<and> input_measures metric = [m] \<and> fill_nulls_with m = Some v"
  then show "metric_expr_of resolve_spec a metric =
          Inr (SqlAggregateFunctionExpression COALESCE
                 [SqlColumnReferenceExpression
                    \<lparr>table_alias = a,
                     col_name = column_name (resolve_spec (OfMeasureSpec
                        \<lparr>element_name = post_aggregation_measure_reference m\<rparr>))\<rparr>,
                  SqlStringExpression (str_of_int v)])"
    by (simp add: metric_expr_of_def make_col_reference_or_coalesce_expr_def)
qed

theorem simple_metric_expr_coalesce_witness:
  "metric_expr_of (\<lambda>s. \<lparr>column_name = ''bookings''\<rparr>) ''subq_1''
      \<lparr>name = ''m'', metric_type = SIMPLE,
       type_params = \<lparr>numerator = None, denominator = None, type_params_expr = None,
                      conversion_type_params = None\<rparr>,
       input_measures = []\<rparr>
     = Inr (SqlColumnReferenceExpression \<lparr>table_alias = ''subq_1'', col_name = ''m''\<rparr>)
   \<and> metric_expr_of (\<lambda>s. \<lparr>column_name = ''bookings''\<rparr>) ''subq_1''
      \<lparr>name = ''m'', metric_type = SIMPLE,
       type_params = \<lparr>numerator = None, denominator = None, type_params_expr = None,
                      conversion_type_params = None\<rparr>,
       input_measures = [\<lparr>post_aggregation_measure_reference = ''bookings'', fill_nulls_with = Some 0\<rparr>]\<rparr>
     = Inr (SqlAggregateFunctionExpression COALESCE
              [SqlColumnReferenceExpression \<lparr>table_alias = ''subq_1'', col_name = ''bookings''\<rparr>,
               SqlStringExpression ''0''])"
proof -
  have z: "str_of_int 0 = ''0''"
    by (simp add: str_of_int_def str_of_nat.simps digit_char_def)
  show ?thesis
    using simple_metric_expr_coalesce
        [of "\<lparr>name = ''m'', metric_type = SIMPLE,
             type_params = \<lparr>numerator = None, denominator = None, type_params_expr = None,
                            conversion_type_params = None\<rparr>,
             input_measures = []\<rparr>" "\<lambda>s. \<lparr>column_name = ''bookings''\<rparr>" "''subq_1''"]
      simple_metric_expr_coalesce
        [of "\<lparr>name = ''m'', metric_type = SIMPLE,
             type_params = \<lparr>numerator = None, denominator = None, type_params_expr = None,
                            conversion_type_params = None\<rparr>,
             input_measures = [\<lparr>post_aggregation_measure_reference = ''bookings'', fill_nulls_with = Some 0\<rparr>]\<rparr>"
            "\<lambda>s. \<lparr>column_name = ''bookings''\<rparr>" "''subq_1''"]
    by (simp add: z)
qed

subsection \<open>The entry point and the engine kind\<close>

text \<open>
  C9. The flag \<open>use_column_alias_in_group_by\<close> is true for exactly the BigQuery engine kind,
  and two engine kinds that agree on the flag give the same result for the same plan node,
  resolver and visitor (inside \<open>accept\<close>), optimization level, plan id and id counter: the
  same returned instance set and SQL plan, the same log records, the same counter, or the
  same abort.
\<close>

theorem engine_kind_only_through_flag:
  "(use_column_alias_in_group_by e \<longleftrightarrow> e = BIGQUERY)
   \<and> (use_column_alias_in_group_by e1 = use_column_alias_in_group_by e2 \<longrightarrow>
        convert_to_sql_query_plan accept optimizers_for_level e1 node level pid st
          = convert_to_sql_query_plan accept optimizers_for_level e2 node level pid st)"
proof (intro conjI impI)
  show "use_column_alias_in_group_by e \<longleftrightarrow> e = BIGQUERY"
    by (simp add: use_column_alias_in_group_by_def)
next
  assume h: "use_column_alias_in_group_by e1 = use_column_alias_in_group_by e2"
  show "convert_to_sql_query_plan accept optimizers_for_level e1 node level pid st
          = convert_to_sql_query_plan accept optimizers_for_level e2 node level pid st"
    unfolding convert_to_sql_query_plan_def h by (rule refl)
qed

theorem engine_kind_only_through_flag_witness:
  "use_column_alias_in_group_by ''DUCKDB'' = use_column_alias_in_group_by ''SNOWFLAKE''
   \<and> convert_to_sql_query_plan
         (\<lambda>(n::unit) st. Inr (\<lparr>instance_set = empty_InstanceSet, sql_node = SqlTableFromClauseNode ''t''\<rparr>, Suc st))
         (\<lambda>(l::unit) b. if b then [] else [\<lparr>optimizer_name = ''P'', optimize = (\<lambda>n. SqlCreateTableAsNode ''o'' n)\<rparr>])
         ''DUCKDB'' () () (None :: unit option) 0
     = convert_to_sql_query_plan
         (\<lambda>(n::unit) st. Inr (\<lparr>instance_set = empty_InstanceSet, sql_node = SqlTableFromClauseNode ''t''\<rparr>, Suc st))
         (\<lambda>(l::unit) b. if b then [] else [\<lparr>optimizer_name = ''P'', optimize = (\<lambda>n. SqlCreateTableAsNode ''o'' n)\<rparr>])
         ''SNOWFLAKE'' () () (None :: unit option) 0"
proof -
  have h: "use_column_alias_in_group_by ''DUCKDB'' = use_column_alias_in_group_by ''SNOWFLAKE''"
    by (simp add: use_column_alias_in_group_by_def BIGQUERY_def)
  show ?thesis
    using h engine_kind_only_through_flag
      [of "''DUCKDB''" "''DUCKDB''" "''SNOWFLAKE''"
          "\<lambda>(n::unit) st. Inr (\<lparr>instance_set = empty_InstanceSet, sql_node = SqlTableFromClauseNode ''t''\<rparr>, Suc st)"
          "\<lambda>(l::unit) b. if b then [] else [\<lparr>optimizer_name = ''P'', optimize = (\<lambda>n. SqlCreateTableAsNode ''o'' n)\<rparr>]"
          "()" "()" "None :: unit option" 0]
    by blast
qed

end
